theory Spec2Isabelle
  imports Main "HOL-Library.Sublist"
begin

section \<open>Data model of \<^verbatim>\<open>src/extension.ts\<close>\<close>

text \<open>
  The extension keeps its state in module-level variables and reaches the outside world
  through the editor API, the file system, the clock and \<^verbatim>\<open>child_process.exec\<close>.
  The model passes the variables around as one record, records every effect the code has
  on its collaborators (status bar, notifications, console, storage, executed commands)
  in fields of that record, and reads every answer of a collaborator from an environment
  record. JavaScript strings are modelled as \<^typ>\<open>string\<close>, one \<^typ>\<open>char\<close> per code
  unit below 256.
\<close>

datatype SyncState = Init | Synced | Syncing | Error

datatype DeletionMode = Off | Once | On

datatype notification =
    ErrorMessage string
  | WarningMessage string
  | InformationMessage string

text \<open>The three arguments \<^verbatim>\<open>exec\<close> hands to its callback; \<open>error\<close> holds \<^verbatim>\<open>error.message\<close>.\<close>

record exec_result =
  error :: "string option"
  stdout :: string
  stderr :: string

text \<open>The value a cycle resolves to: \<^verbatim>\<open>{ success: boolean, message?: string }\<close>.\<close>

record sync_result =
  success :: bool
  message :: "string option"

text \<open>
  \<open>remoteHosts\<close>, \<open>currentHost\<close>, \<open>lastSyncExecutionTime\<close> and \<open>deletionMode\<close> are the
  module variables. \<open>statusTrace\<close> lists, oldest first, every state
  \<^verbatim>\<open>updateStatusBar\<close> was asked to show (the code stores no state variable: the state
  is the one last shown); \<open>storedRemoteHosts\<close> and \<open>lastUsedHost\<close> are the two storage
  keys; \<open>notifications\<close>, \<open>console\<close> and \<open>execLog\<close> list the messages shown, the lines
  logged and the commands handed to \<^verbatim>\<open>exec\<close>.
\<close>

record ext_state =
  remoteHosts :: "string list"
  currentHost :: "string option"
  lastSyncExecutionTime :: "int option"
  deletionMode :: DeletionMode
  statusTrace :: "SyncState list"
  storedRemoteHosts :: "string list"
  lastUsedHost :: "string option"
  notifications :: "notification list"
  console :: "string list"
  execLog :: "string list"

text \<open>
  What the collaborators answer during one operation: the path of the first workspace
  folder (if any), whether \<^verbatim>\<open>.gitignore\<close> exists there, the outcome of running a
  command, the two readings of \<^verbatim>\<open>Date.now()\<close> around the transfer, and the locale's
  rendering of a time.
\<close>

record env =
  workspaceFolder :: "string option"
  gitignoreExists :: bool
  exec :: "string \<Rightarrow> exec_result"
  startTime :: int
  endTime :: int
  toLocaleTimeString :: "int \<Rightarrow> string"

section \<open>JavaScript string operations used by the code\<close>

definition tab :: char where
  "tab = CHR 0x09"

definition dquote :: char where
  "dquote = CHR 0x22"

definition squote :: char where
  "squote = CHR 0x27"

text \<open>White space and line terminators of ECMAScript among the code units below 256.\<close>

definition js_whitespace :: "char \<Rightarrow> bool" where
  "js_whitespace c \<longleftrightarrow>
     c \<in> {CHR 0x09, CHR 0x0A, CHR 0x0B, CHR 0x0C, CHR 0x0D, CHR 0x20, CHR 0xA0}"

definition trim :: "string \<Rightarrow> string" where
  "trim s = rev (dropWhile js_whitespace (rev (dropWhile js_whitespace s)))"

text \<open>\<^verbatim>\<open>s.split(c)\<close> for a one-character separator: never empty, one more part than separators.\<close>

fun split :: "char \<Rightarrow> string \<Rightarrow> string list" where
  "split c [] = [[]]"
| "split c (x # xs) =
     (if x = c then [] # split c xs
      else (case split c xs of
              [] \<Rightarrow> [[x]]
            | w # ws \<Rightarrow> (x # w) # ws))"

definition startsWith :: "string \<Rightarrow> string \<Rightarrow> bool" where
  "startsWith s p = prefix p s"

definition endsWith :: "string \<Rightarrow> string \<Rightarrow> bool" where
  "endsWith s p = suffix p s"

definition substring :: "string \<Rightarrow> nat \<Rightarrow> string" where
  "substring s n = drop n s"

text \<open>Numbers inside template literals: the decimal numeral of an integer.\<close>

definition digit_char :: "nat \<Rightarrow> char" where
  "digit_char d = ''0123456789'' ! d"

fun decimal :: "nat \<Rightarrow> string" where
  "decimal n = (if n < 10 then [digit_char n] else decimal (n div 10) @ [digit_char (n mod 10)])"

declare decimal.simps [simp del]

definition number_toString :: "int \<Rightarrow> string" where
  "number_toString i = (if 0 \<le> i then decimal (nat i) else CHR ''-'' # decimal (nat (- i)))"

section \<open>The status bar\<close>

text \<open>
  \<^verbatim>\<open>updateStatusBar(newState?, timestamp?, executionTime?)\<close>: remembers the latency when
  one is given and shows the state when one is given. The rendering itself (text, colour,
  tooltip) belongs to the editor and is not modelled.
\<close>

definition updateStatusBar ::
  "SyncState option \<Rightarrow> int option \<Rightarrow> int option \<Rightarrow> ext_state \<Rightarrow> ext_state" where
  "updateStatusBar newState timestamp executionTime s =
     s\<lparr>lastSyncExecutionTime :=
          (case executionTime of None \<Rightarrow> lastSyncExecutionTime s | Some t \<Rightarrow> Some t),
       statusTrace :=
          (case newState of None \<Rightarrow> statusTrace s | Some st \<Rightarrow> statusTrace s @ [st])\<rparr>"

definition showErrorMessage :: "string \<Rightarrow> ext_state \<Rightarrow> ext_state" where
  "showErrorMessage m s = s\<lparr>notifications := notifications s @ [ErrorMessage m]\<rparr>"


definition showInformationMessage :: "string \<Rightarrow> ext_state \<Rightarrow> ext_state" where
  "showInformationMessage m s = s\<lparr>notifications := notifications s @ [InformationMessage m]\<rparr>"

definition console_log :: "string list \<Rightarrow> ext_state \<Rightarrow> ext_state" where
  "console_log ls s = s\<lparr>console := console s @ ls\<rparr>"

text \<open>
  \<^verbatim>\<open>activate\<close>: log the activation, load the two storage keys and show \<open>Init\<close>.
  Nothing has been shown, logged or executed before.
\<close>

definition activate :: "string list \<Rightarrow> string option \<Rightarrow> ext_state" where
  "activate stored lastUsed =
     updateStatusBar (Some Init) None None
       (console_log [''codemirror: extension activated'']
          \<lparr>remoteHosts = stored, currentHost = lastUsed, lastSyncExecutionTime = None,
           deletionMode = Off, statusTrace = [], storedRemoteHosts = stored,
           lastUsedHost = lastUsed, notifications = [], console = [], execLog = []\<rparr>)"

section \<open>The sync cycle: \<^verbatim>\<open>runSyncCommand\<close>\<close>

text \<open>\<^verbatim>\<open>!currentHost || currentHost.trim() === ''\<close>\<close>

definition noHost :: "string option \<Rightarrow> bool" where
  "noHost h = (case h of None \<Rightarrow> True | Some t \<Rightarrow> t = [] \<or> trim t = [])"

text \<open>\<^verbatim>\<open>currentHost.endsWith('/') ? currentHost : `${currentHost}/`\<close>\<close>

definition dest_path :: "string \<Rightarrow> string" where
  "dest_path h = (if endsWith h ''/'' then h else h @ ''/'')"

text \<open>
  The template literal of the command. A backslash at the end of a line continues the
  line, so the pieces are joined by the three tabs that indent the next line. The part
  before the two operands is \<open>rsync_options\<close>.
\<close>

definition rsync_options :: "DeletionMode \<Rightarrow> string" where
  "rsync_options mode =
     ''rsync -avzh '' @ [tab, tab, tab] @
     (if mode \<noteq> Off then ''--delete-after '' else []) @ [tab, tab, tab] @
     ''--include='**.gitignore' --exclude='/.git' --filter=':- .gitignore' '' @ [tab, tab, tab] @
     ''--out-format='change: %n' '' @ [tab, tab, tab]"

definition rsync_command :: "DeletionMode \<Rightarrow> string \<Rightarrow> string \<Rightarrow> string" where
  "rsync_command mode fsPath dest = rsync_options mode @ fsPath @ '' '' @ dest"

definition deletedFiles :: "string \<Rightarrow> string list" where
  "deletedFiles out = filter (\<lambda>line. startsWith line ''delete:'') (split CHR 0x0A out)"

definition changedLines :: "string \<Rightarrow> string list" where
  "changedLines out = filter (\<lambda>line. startsWith line ''change:'') (split CHR 0x0A out)"

definition fileName :: "string \<Rightarrow> string" where
  "fileName line = trim (substring line 8)"

text \<open>The callback given to \<^verbatim>\<open>exec\<close>, run on the state as it is when the process has ended.\<close>

definition execCallback :: "env \<Rightarrow> exec_result \<Rightarrow> ext_state \<Rightarrow> ext_state \<times> sync_result" where
  "execCallback e r s =
     (let executionTime = endTime e - startTime e in
      case error r of
        Some m \<Rightarrow>
          (updateStatusBar (Some Error) None None (showErrorMessage (''codemirror error: '' @ m) s),
           \<lparr>success = False, message = Some m\<rparr>)
      | None \<Rightarrow>
          if stderr r \<noteq> [] then
            (updateStatusBar (Some Error) None None
               (showErrorMessage (''codemirror stderr: '' @ stderr r) s),
             \<lparr>success = False, message = Some (stderr r)\<rparr>)
          else
            let s1 = (if deletionMode s = Once then s\<lparr>deletionMode := Off\<rparr> else s);
                s2 = console_log (deletedFiles (stdout r)) s1;
                s3 = console_log
                       [''Made '' @ decimal (length (changedLines (stdout r))) @
                        '' changes at '' @ toLocaleTimeString e (endTime e) @
                        '' in '' @ number_toString executionTime @ ''ms''] s2;
                s4 = console_log (map fileName (changedLines (stdout r))) s3
            in (updateStatusBar (Some Synced) (Some (startTime e)) (Some executionTime) s4,
                \<lparr>success = True,
                 message = Some (''Synced '' @ decimal (length (changedLines (stdout r))) @
                                 '' files in '' @ number_toString executionTime @ ''ms'')\<rparr>))"

text \<open>
  One cycle, the transfer awaited. \<^verbatim>\<open>excludeFromOption\<close> is computed by the source and
  never used, so the existence of \<^verbatim>\<open>.gitignore\<close> has no effect.
\<close>

definition runSyncCommand :: "env \<Rightarrow> ext_state \<Rightarrow> ext_state \<times> sync_result" where
  "runSyncCommand e s =
     (if noHost (currentHost s) then
        (updateStatusBar (Some Init) None None s,
         \<lparr>success = False, message = Some ''no remote host selected''\<rparr>)
      else
        let s1 = updateStatusBar (Some Syncing) None None s in
        case workspaceFolder e of
          None \<Rightarrow>
            (updateStatusBar (Some Error) None None
               (showErrorMessage ''codemirror: no workspace folder found'' s1),
             \<lparr>success = False, message = Some ''no workspace folder found''\<rparr>)
        | Some fsPath \<Rightarrow>
            let s2 = updateStatusBar (Some Syncing) None None s1;
                command = rsync_command (deletionMode s2) fsPath (dest_path (the (currentHost s2)));
                s3 = s2\<lparr>execLog := execLog s2 @ [command]\<rparr>
            in execCallback e (exec e command) s3)"

section \<open>Host registry operations\<close>


text \<open>\<^verbatim>\<open>promptRemoveHost\<close>, given what the quick pick returned (\<open>None\<close> when dismissed).\<close>

definition promptRemoveHost :: "string option \<Rightarrow> ext_state \<Rightarrow> ext_state" where
  "promptRemoveHost pick s =
     (case pick of
        None \<Rightarrow> s
      | Some hostToRemove \<Rightarrow>
          if hostToRemove = [] then s
          else
            let s1 = (if Some hostToRemove = currentHost s
                      then updateStatusBar (Some Init) None None (s\<lparr>currentHost := None\<rparr>)
                      else s);
                s2 = s1\<lparr>remoteHosts := filter (\<lambda>host. host \<noteq> hostToRemove) (remoteHosts s1)\<rparr>;
                s3 = s2\<lparr>storedRemoteHosts := remoteHosts s2\<rparr>
            in showInformationMessage (''Removed host: '' @ hostToRemove) s3)"

text \<open>\<^verbatim>\<open>`ssh ${hostname} -t "ls ${path}"`\<close>\<close>

definition ssh_command :: "string \<Rightarrow> string \<Rightarrow> string" where
  "ssh_command hostname path =
     ''ssh '' @ hostname @ '' -t '' @ [dquote] @ ''ls '' @ path @ [dquote]"

text \<open>\<^verbatim>\<open>validateHost(host, testReachability)\<close>\<close>

definition validateHost :: "env \<Rightarrow> string \<Rightarrow> bool \<Rightarrow> ext_state \<Rightarrow> ext_state \<times> bool" where
  "validateHost e host testReachability s =
     (let parts = split CHR '':'' host in
      if length parts \<noteq> 2 \<or> parts ! 0 = [] \<or> parts ! 1 = [] then
        (showErrorMessage
           (''codemirror: Invalid host format. Please use 'hostname:path'' @ [squote]) s, False)
      else if testReachability then
        let command = ssh_command (parts ! 0) (parts ! 1);
            s1 = s\<lparr>execLog := execLog s @ [command]\<rparr>
        in (case error (exec e command) of
              Some m \<Rightarrow>
                (showErrorMessage (''codemirror: Cannot access remote path: '' @ m) s1, False)
            | None \<Rightarrow> (s1, True))
      else (s, True))"


section \<open>Concrete runs\<close>

text \<open>
  A freshly activated extension whose registry holds \<^verbatim>\<open>box:/srv/app\<close>, in a
  workspace \<open>w\<close>; every command run answers \<open>r\<close>, the transfer after 42 ms.
\<close>

definition demo_state :: "string option \<Rightarrow> DeletionMode \<Rightarrow> ext_state" where
  "demo_state host mode = (activate [''box:/srv/app''] host)\<lparr>deletionMode := mode\<rparr>"

definition demo_env :: "string \<Rightarrow> exec_result \<Rightarrow> env" where
  "demo_env w r =
     \<lparr>workspaceFolder = Some w, gitignoreExists = True, exec = (\<lambda>command. r),
      startTime = 1000, endTime = 1042, toLocaleTimeString = (\<lambda>t. ''12:00:00'')\<rparr>"

definition demo_ok :: exec_result where
  "demo_ok =
     \<lparr>error = None,
      stdout = ''change: a.txt'' @ [CHR 0x0A] @ ''change: b.txt'' @ [CHR 0x0A] @
               ''delete: c.txt'' @ [CHR 0x0A],
      stderr = []\<rparr>"

definition demo_exit_nonzero :: exec_result where
  "demo_exit_nonzero =
     \<lparr>error = Some ''Command failed'', stdout = ''change: a.txt'' @ [CHR 0x0A], stderr = []\<rparr>"

definition demo_stderr :: exec_result where
  "demo_stderr =
     \<lparr>error = None, stdout = ''change: a.txt'' @ [CHR 0x0A], stderr = ''rsync: warning''\<rparr>"

section \<open>Basic facts\<close>

lemma trim_Nil_iff: "trim h = [] \<longleftrightarrow> (\<forall>c\<in>set h. js_whitespace c)"
proof
  assume "trim h = []"
  then have all: "\<forall>c\<in>set (dropWhile js_whitespace h). js_whitespace c"
    by (simp add: trim_def dropWhile_eq_Nil_conv)
  have "dropWhile js_whitespace h = []"
  proof (rule ccontr)
    assume ne: "dropWhile js_whitespace h \<noteq> []"
    then have "\<not> js_whitespace (hd (dropWhile js_whitespace h))"
      by (rule hd_dropWhile)
    moreover from ne have "hd (dropWhile js_whitespace h) \<in> set (dropWhile js_whitespace h)"
      by simp
    ultimately show False using all by blast
  qed
  then show "\<forall>c\<in>set h. js_whitespace c"
    by (simp add: dropWhile_eq_Nil_conv)
next
  assume "\<forall>c\<in>set h. js_whitespace c"
  then have d: "dropWhile js_whitespace h = []"
    by (simp add: dropWhile_eq_Nil_conv)
  show "trim h = []"
    unfolding trim_def d by simp
qed

lemma noHost_iff:
  "noHost h \<longleftrightarrow> h = None \<or> (\<exists>t. h = Some t \<and> (\<forall>c\<in>set t. js_whitespace c))"
  by (cases h) (auto simp: noHost_def trim_Nil_iff)

lemmas cycle_defs =
  runSyncCommand_def execCallback_def updateStatusBar_def showErrorMessage_def
  console_log_def Let_def

lemma noHost_demo: "\<not> noHost (Some ''box:/srv/app'')"
  by (simp add: noHost_def trim_def js_whitespace_def)

lemma demo_state_simps:
  "currentHost (demo_state h m) = h"
  "deletionMode (demo_state h m) = m"
  "statusTrace (demo_state h m) = [Init]"
  "execLog (demo_state h m) = []"
  "console (demo_state h m) = [''codemirror: extension activated'']"
  "remoteHosts (demo_state h m) = [''box:/srv/app'']"
  "notifications (demo_state h m) = []"
  by (simp_all add: demo_state_def activate_def updateStatusBar_def console_log_def)

lemma demo_env_simps:
  "workspaceFolder (demo_env w r) = Some w"
  "exec (demo_env w r) c = r"
  "startTime (demo_env w r) = 1000"
  "endTime (demo_env w r) = 1042"
  by (simp_all add: demo_env_def)

subsection \<open>Splitting at a separator\<close>

lemma split_not_Nil: "split c s \<noteq> []"
  by (induction s) (simp_all split: list.splits)

lemma split_single: "split c s = [b] \<longleftrightarrow> s = b \<and> c \<notin> set b"
proof (induction s arbitrary: b)
  case Nil
  show ?case by auto
next
  case (Cons x xs)
  obtain w ws where sp: "split c xs = w # ws"
    using split_not_Nil [of c xs] by (cases "split c xs") auto
  show ?case
  proof (cases "x = c")
    case True
    then show ?thesis by (auto simp: sp)
  next
    case False
    have "split c (x # xs) = [b] \<longleftrightarrow> (\<exists>w'. b = x # w' \<and> split c xs = [w'])"
      using False by (auto simp: sp)
    also have "\<dots> \<longleftrightarrow> (\<exists>w'. b = x # w' \<and> xs = w' \<and> c \<notin> set w')"
      by (simp only: Cons.IH)
    also have "\<dots> \<longleftrightarrow> x # xs = b \<and> c \<notin> set b"
      using False by auto
    finally show ?thesis .
  qed
qed

lemma split_pair: "split c s = [a, b] \<longleftrightarrow> s = a @ c # b \<and> c \<notin> set a \<and> c \<notin> set b"
proof (induction s arbitrary: a)
  case Nil
  show ?case by auto
next
  case (Cons x xs)
  obtain w ws where sp: "split c xs = w # ws"
    using split_not_Nil [of c xs] by (cases "split c xs") auto
  show ?case
  proof (cases "x = c")
    case True
    have "split c (x # xs) = [a, b] \<longleftrightarrow> a = [] \<and> split c xs = [b]"
      using True by auto
    also have "\<dots> \<longleftrightarrow> a = [] \<and> xs = b \<and> c \<notin> set b"
      by (simp only: split_single)
    also have "\<dots> \<longleftrightarrow> x # xs = a @ c # b \<and> c \<notin> set a \<and> c \<notin> set b"
      using True by (cases a) auto
    finally show ?thesis .
  next
    case False
    have "split c (x # xs) = [a, b] \<longleftrightarrow> (\<exists>w'. a = x # w' \<and> split c xs = [w', b])"
      using False by (auto simp: sp)
    also have "\<dots> \<longleftrightarrow> (\<exists>w'. a = x # w' \<and> xs = w' @ c # b \<and> c \<notin> set w' \<and> c \<notin> set b)"
      by (simp only: Cons.IH)
    also have "\<dots> \<longleftrightarrow> x # xs = a @ c # b \<and> c \<notin> set a \<and> c \<notin> set b"
      using False by (cases a) auto
    finally show ?thesis .
  qed
qed

lemma length_two: "length xs = 2 \<longleftrightarrow> (\<exists>a b. xs = [a, b])"
  by (auto simp: numeral_2_eq_2 length_Suc_conv)

lemma validateHost_split:
  "snd (validateHost e h False s) \<longleftrightarrow>
     (\<exists>a b. split CHR '':'' h = [a, b] \<and> a \<noteq> [] \<and> b \<noteq> [])"
proof (cases "\<exists>a b. split CHR '':'' h = [a, b]")
  case True
  then obtain a b where ab: "split CHR '':'' h = [a, b]" by blast
  show ?thesis by (simp add: validateHost_def Let_def ab)
next
  case False
  then have "length (split CHR '':'' h) \<noteq> 2" by (simp add: length_two)
  then show ?thesis using False by (simp add: validateHost_def Let_def)
qed

subsection \<open>Substrings of the command\<close>







subsection \<open>What a cycle executes and shows\<close>

lemma endsWith_slash: "endsWith h ''/'' \<longleftrightarrow> h \<noteq> [] \<and> last h = CHR ''/''"
  by (cases h rule: rev_cases) (auto simp: endsWith_def suffix_def)



lemma cycle_trace:
  "statusTrace (fst (runSyncCommand e s)) =
     statusTrace s @
     (if noHost (currentHost s) then [Init]
      else if workspaceFolder e = None then [Syncing, Error]
      else if success (snd (runSyncCommand e s)) then [Syncing, Syncing, Synced]
      else [Syncing, Syncing, Error])"
  by (auto simp: cycle_defs split: option.splits)

lemma cycle_success_host:
  "success (snd (runSyncCommand e s)) \<Longrightarrow> \<not> noHost (currentHost s) \<and> workspaceFolder e \<noteq> None"
  by (auto simp: cycle_defs split: option.splits if_splits)

subsection \<open>Validation leaves the registry alone\<close>







lemma count_list_filter_neq:
  "x \<noteq> h \<Longrightarrow> count_list (filter (\<lambda>y. y \<noteq> h) xs) x = count_list xs x"
  by (induction xs) auto

section \<open>The deletion token\<close>

text \<open>
  C1. A cycle run with deletion mode \<open>Once\<close> that reaches the transfer: when the transfer
  ends without error and with an empty error stream, the cycle succeeds and leaves the
  mode \<open>Off\<close>; when the transfer ends with an error or wrote to its error stream, the
  cycle fails and leaves the mode \<open>Once\<close>.
\<close>

theorem once_token_consumed_only_on_success:
  assumes "deletionMode s = Once" and "\<not> noHost (currentHost s)" and "workspaceFolder e = Some w"
    and "r = exec e (rsync_command Once w (dest_path (the (currentHost s))))"
  shows "(error r = None \<and> stderr r = [] \<longrightarrow>
            success (snd (runSyncCommand e s)) \<and> deletionMode (fst (runSyncCommand e s)) = Off) \<and>
         (error r \<noteq> None \<or> stderr r \<noteq> [] \<longrightarrow>
            \<not> success (snd (runSyncCommand e s)) \<and> deletionMode (fst (runSyncCommand e s)) = Once)"
  using assms by (auto simp: cycle_defs split: option.splits)

theorem once_token_consumed_only_on_success_witness:
  "deletionMode (fst (runSyncCommand (demo_env ''/home/u/proj'' demo_ok)
                        (demo_state (Some ''box:/srv/app'') Once))) = Off \<and>
   deletionMode (fst (runSyncCommand (demo_env ''/home/u/proj'' demo_exit_nonzero)
                        (demo_state (Some ''box:/srv/app'') Once))) = Once \<and>
   deletionMode (fst (runSyncCommand (demo_env ''/home/u/proj'' demo_stderr)
                        (demo_state (Some ''box:/srv/app'') Once))) = Once"
proof -
  have h1: "deletionMode (demo_state (Some ''box:/srv/app'') Once) = Once"
    by (simp add: demo_state_simps)
  have h2: "\<not> noHost (currentHost (demo_state (Some ''box:/srv/app'') Once))"
    by (simp add: demo_state_simps noHost_demo)
  have h3: "workspaceFolder (demo_env ''/home/u/proj'' r) = Some ''/home/u/proj''" for r
    by (simp add: demo_env_simps)
  note t = once_token_consumed_only_on_success [OF h1 h2 h3 refl]
  show ?thesis
    using t [of demo_ok] t [of demo_exit_nonzero] t [of demo_stderr]
    by (simp add: demo_env_simps demo_ok_def demo_exit_nonzero_def demo_stderr_def)
qed

section \<open>Failure of the transfer\<close>

text \<open>
  C2. A cycle that reaches the transfer, whose process ends with an error (a non-zero
  exit) or wrote anything to its error stream, whatever its standard output: the result
  is a failure carrying the tool's message (the error's message, else the error stream),
  the states shown in the cycle are \<open>Syncing\<close>, \<open>Syncing\<close>, \<open>Error\<close>, so the state ends
  as \<open>Error\<close> and \<open>Synced\<close> is never shown.
\<close>

theorem process_error_fails_cycle:
  assumes "\<not> noHost (currentHost s)" and "workspaceFolder e = Some w"
    and "r = exec e (rsync_command (deletionMode s) w (dest_path (the (currentHost s))))"
    and "error r \<noteq> None \<or> stderr r \<noteq> []"
  shows "snd (runSyncCommand e s) =
           \<lparr>success = False,
            message = Some (case error r of Some m \<Rightarrow> m | None \<Rightarrow> stderr r)\<rparr> \<and>
         statusTrace (fst (runSyncCommand e s)) = statusTrace s @ [Syncing, Syncing, Error] \<and>
         last (statusTrace (fst (runSyncCommand e s))) = Error \<and>
         Synced \<notin> set (drop (length (statusTrace s)) (statusTrace (fst (runSyncCommand e s))))"
  using assms by (auto simp: cycle_defs split: option.splits)

theorem process_error_fails_cycle_witness:
  "snd (runSyncCommand (demo_env ''/home/u/proj'' demo_exit_nonzero)
          (demo_state (Some ''box:/srv/app'') Off)) =
     \<lparr>success = False, message = Some ''Command failed''\<rparr> \<and>
   statusTrace (fst (runSyncCommand (demo_env ''/home/u/proj'' demo_exit_nonzero)
                       (demo_state (Some ''box:/srv/app'') Off))) =
     [Init, Syncing, Syncing, Error] \<and>
   snd (runSyncCommand (demo_env ''/home/u/proj'' demo_stderr)
          (demo_state (Some ''box:/srv/app'') Off)) =
     \<lparr>success = False, message = Some ''rsync: warning''\<rparr> \<and>
   statusTrace (fst (runSyncCommand (demo_env ''/home/u/proj'' demo_stderr)
                       (demo_state (Some ''box:/srv/app'') Off))) =
     [Init, Syncing, Syncing, Error]"
proof -
  have h1: "\<not> noHost (currentHost (demo_state (Some ''box:/srv/app'') Off))"
    by (simp add: demo_state_simps noHost_demo)
  have h2: "workspaceFolder (demo_env ''/home/u/proj'' r) = Some ''/home/u/proj''" for r
    by (simp add: demo_env_simps)
  have a: "error (exec (demo_env ''/home/u/proj'' demo_exit_nonzero) c) \<noteq> None \<or>
           stderr (exec (demo_env ''/home/u/proj'' demo_exit_nonzero) c) \<noteq> []" for c
    by (simp add: demo_env_simps demo_exit_nonzero_def)
  have b: "error (exec (demo_env ''/home/u/proj'' demo_stderr) c) \<noteq> None \<or>
           stderr (exec (demo_env ''/home/u/proj'' demo_stderr) c) \<noteq> []" for c
    by (simp add: demo_env_simps demo_stderr_def)
  show ?thesis
    using process_error_fails_cycle [OF h1 h2 refl a] process_error_fails_cycle [OF h1 h2 refl b]
    by (simp add: demo_env_simps demo_state_simps demo_exit_nonzero_def demo_stderr_def)
qed

section \<open>No host selected\<close>

text \<open>
  C3. A cycle started with no current host, or with a current host made of white space
  only (the empty string included), shows \<open>Init\<close>, returns the failure
  \<^verbatim>\<open>no remote host selected\<close> and hands no command to \<^verbatim>\<open>exec\<close>.
\<close>

theorem no_host_cycle:
  assumes "currentHost s = None \<or>
           (\<exists>h. currentHost s = Some h \<and> (\<forall>c\<in>set h. js_whitespace c))"
  shows "snd (runSyncCommand e s) =
           \<lparr>success = False, message = Some ''no remote host selected''\<rparr> \<and>
         statusTrace (fst (runSyncCommand e s)) = statusTrace s @ [Init] \<and>
         execLog (fst (runSyncCommand e s)) = execLog s"
proof -
  from assms have "noHost (currentHost s)"
    by (simp add: noHost_iff)
  then show ?thesis
    by (simp add: runSyncCommand_def updateStatusBar_def)
qed

theorem no_host_cycle_witness:
  "execLog (fst (runSyncCommand (demo_env ''/home/u/proj'' demo_ok) (demo_state None On))) = [] \<and>
   statusTrace (fst (runSyncCommand (demo_env ''/home/u/proj'' demo_ok) (demo_state None On))) =
     [Init, Init] \<and>
   execLog (fst (runSyncCommand (demo_env ''/home/u/proj'' demo_ok)
                   (demo_state (Some [CHR '' '', CHR 0x09]) On))) = [] \<and>
   \<not> success (snd (runSyncCommand (demo_env ''/home/u/proj'' demo_ok)
                     (demo_state (Some [CHR '' '', CHR 0x09]) On)))"
proof -
  have h1: "currentHost (demo_state None On) = None \<or>
            (\<exists>h. currentHost (demo_state None On) = Some h \<and> (\<forall>c\<in>set h. js_whitespace c))"
    by (simp add: demo_state_simps)
  have h2: "currentHost (demo_state (Some [CHR '' '', CHR 0x09]) On) = None \<or>
            (\<exists>h. currentHost (demo_state (Some [CHR '' '', CHR 0x09]) On) = Some h \<and>
                 (\<forall>c\<in>set h. js_whitespace c))"
    by (simp add: demo_state_simps js_whitespace_def)
  show ?thesis
    using no_host_cycle [OF h1, of "demo_env ''/home/u/proj'' demo_ok"]
      no_host_cycle [OF h2, of "demo_env ''/home/u/proj'' demo_ok"]
    by (simp add: demo_state_simps)
qed

section \<open>The transfer command\<close>




section \<open>Parsing the output of the transfer\<close>

text \<open>
  C5. When the transfer succeeds with the standard output
  \<^verbatim>\<open>change: a.txt\<close>, \<^verbatim>\<open>change: b.txt\<close>, \<^verbatim>\<open>delete: c.txt\<close> (each line ended by a
  newline), two changed lines are counted, the names logged are \<^verbatim>\<open>a.txt\<close> and
  \<^verbatim>\<open>b.txt\<close>, and the cycle resolves to success with the message
  \<^verbatim>\<open>Synced 2 files in <D>ms\<close>, \<open>D\<close> the decimal numeral of the elapsed milliseconds.
\<close>

theorem parsed_changes_example:
  assumes "\<not> noHost (currentHost s)" and "workspaceFolder e = Some w"
    and "r = exec e (rsync_command (deletionMode s) w (dest_path (the (currentHost s))))"
    and "error r = None" and "stderr r = []"
    and "stdout r = ''change: a.txt\<newline>change: b.txt\<newline>delete: c.txt\<newline>''"
  shows "length (changedLines (stdout r)) = 2 \<and>
         map fileName (changedLines (stdout r)) = [''a.txt'', ''b.txt''] \<and>
         snd (runSyncCommand e s) =
           \<lparr>success = True,
            message = Some (''Synced 2 files in '' @ number_toString (endTime e - startTime e) @ ''ms'')\<rparr> \<and>
         console (fst (runSyncCommand e s)) =
           console s @
           [''delete: c.txt'',
            ''Made 2 changes at '' @ toLocaleTimeString e (endTime e) @ '' in '' @
              number_toString (endTime e - startTime e) @ ''ms'',
            ''a.txt'', ''b.txt'']"
proof -
  have cl: "changedLines (stdout r) = [''change: a.txt'', ''change: b.txt'']"
    by (simp add: assms(6) changedLines_def startsWith_def)
  have dl: "deletedFiles (stdout r) = [''delete: c.txt'']"
    by (simp add: assms(6) deletedFiles_def startsWith_def)
  have fn: "fileName ''change: a.txt'' = ''a.txt''" "fileName ''change: b.txt'' = ''b.txt''"
    by (simp_all add: fileName_def substring_def trim_def js_whitespace_def)
  have two: "decimal (Suc (Suc 0)) = ''2''"
    using decimal.simps [of 2] by (simp add: digit_char_def numeral_2_eq_2)
  have run: "runSyncCommand e s =
               execCallback e r
                 (s\<lparr>statusTrace := statusTrace s @ [Syncing, Syncing],
                    execLog := execLog s @
                      [rsync_command (deletionMode s) w (dest_path (the (currentHost s)))]\<rparr>)"
    using assms(1,2) unfolding assms(3)
    by (simp add: runSyncCommand_def updateStatusBar_def Let_def)
  show ?thesis
    unfolding run using assms(4,5)
    by (simp add: execCallback_def updateStatusBar_def console_log_def Let_def cl dl fn two)
qed

theorem parsed_changes_example_witness:
  "snd (runSyncCommand (demo_env ''/home/u/proj'' demo_ok) (demo_state (Some ''box:/srv/app'') Off)) =
     \<lparr>success = True, message = Some ''Synced 2 files in 42ms''\<rparr> \<and>
   console (fst (runSyncCommand (demo_env ''/home/u/proj'' demo_ok)
                   (demo_state (Some ''box:/srv/app'') Off))) =
     [''codemirror: extension activated'',
      ''delete: c.txt'', ''Made 2 changes at 12:00:00 in 42ms'', ''a.txt'', ''b.txt'']"
proof -
  have h1: "\<not> noHost (currentHost (demo_state (Some ''box:/srv/app'') Off))"
    by (simp add: demo_state_simps noHost_demo)
  have h2: "workspaceFolder (demo_env ''/home/u/proj'' demo_ok) = Some ''/home/u/proj''"
    by (simp add: demo_env_simps)
  have h4: "error (exec (demo_env ''/home/u/proj'' demo_ok) c) = None" for c
    by (simp add: demo_env_simps demo_ok_def)
  have h5: "stderr (exec (demo_env ''/home/u/proj'' demo_ok) c) = []" for c
    by (simp add: demo_env_simps demo_ok_def)
  have h6: "stdout (exec (demo_env ''/home/u/proj'' demo_ok) c) =
              ''change: a.txt\<newline>change: b.txt\<newline>delete: c.txt\<newline>''" for c
    by (simp add: demo_env_simps demo_ok_def)
  have d: "number_toString 42 = ''42''"
    by (simp add: number_toString_def decimal.simps digit_char_def)
  show ?thesis
    using parsed_changes_example [OF h1 h2 refl h4 h5 h6]
    by (simp add: demo_state_simps demo_env_def d)
qed

section \<open>The format of a host\<close>

text \<open>
  C6. \<^verbatim>\<open>validateHost(h, false)\<close> answers true if and only if \<open>h\<close> is a non-empty part
  without colon, one colon, and another non-empty part without colon; it hands no command
  to \<^verbatim>\<open>exec\<close>.
\<close>

theorem validateHost_format:
  "(snd (validateHost e h False s) \<longleftrightarrow>
      (\<exists>a b. h = a @ CHR '':'' # b \<and> a \<noteq> [] \<and> b \<noteq> [] \<and>
             CHR '':'' \<notin> set a \<and> CHR '':'' \<notin> set b)) \<and>
   execLog (fst (validateHost e h False s)) = execLog s"
proof -
  have "execLog (fst (validateHost e h False s)) = execLog s"
    by (simp add: validateHost_def Let_def showErrorMessage_def)
  moreover have "(\<exists>a b. split CHR '':'' h = [a, b] \<and> a \<noteq> [] \<and> b \<noteq> []) \<longleftrightarrow>
      (\<exists>a b. h = a @ CHR '':'' # b \<and> a \<noteq> [] \<and> b \<noteq> [] \<and>
             CHR '':'' \<notin> set a \<and> CHR '':'' \<notin> set b)"
    unfolding split_pair by blast
  ultimately show ?thesis
    unfolding validateHost_split by simp
qed

theorem validateHost_format_witness:
  "snd (validateHost (demo_env ''/home/u/proj'' demo_ok) ''box:/srv/app'' False (demo_state None Off)) \<and>
   \<not> snd (validateHost (demo_env ''/home/u/proj'' demo_ok) ''box:'' False (demo_state None Off)) \<and>
   execLog (fst (validateHost (demo_env ''/home/u/proj'' demo_ok) ''box:/srv/app'' False
                   (demo_state None Off))) = []"
proof -
  have ex: "\<exists>a b. ''box:/srv/app'' = a @ CHR '':'' # b \<and> a \<noteq> [] \<and> b \<noteq> [] \<and>
                 CHR '':'' \<notin> set a \<and> CHR '':'' \<notin> set b"
    by (rule exI [of _ "''box''"], rule exI [of _ "''/srv/app''"]) simp
  have nex: "\<not> (\<exists>a b. ''box:'' = a @ CHR '':'' # b \<and> a \<noteq> [] \<and> b \<noteq> [] \<and>
                 CHR '':'' \<notin> set a \<and> CHR '':'' \<notin> set b)"
    by (auto simp: append_eq_Cons_conv Cons_eq_append_conv)
  show ?thesis
    using validateHost_format [of "demo_env ''/home/u/proj'' demo_ok" "''box:/srv/app''"
        "demo_state None Off"]
      validateHost_format [of "demo_env ''/home/u/proj'' demo_ok" "''box:''" "demo_state None Off"]
      ex nex
    by (simp add: demo_state_simps)
qed

section \<open>Removing a host\<close>

text \<open>
  C7. Removing a host \<open>h\<close> picked from the registry (a host is never the empty string):
  when \<open>h\<close> is the current host the selection is cleared and \<open>Init\<close> is shown; otherwise
  the selection and the state shown stay as they were. In both cases \<open>h\<close> is no longer in
  the registry, the registry left is a subsequence of the old one in which every other
  host occurs as often as before, and it is what is stored.
\<close>

theorem remove_host:
  assumes "h \<noteq> []"
  shows "(currentHost s = Some h \<longrightarrow>
            currentHost (promptRemoveHost (Some h) s) = None \<and>
            statusTrace (promptRemoveHost (Some h) s) = statusTrace s @ [Init]) \<and>
         (currentHost s \<noteq> Some h \<longrightarrow>
            currentHost (promptRemoveHost (Some h) s) = currentHost s \<and>
            statusTrace (promptRemoveHost (Some h) s) = statusTrace s) \<and>
         h \<notin> set (remoteHosts (promptRemoveHost (Some h) s)) \<and>
         subseq (remoteHosts (promptRemoveHost (Some h) s)) (remoteHosts s) \<and>
         (\<forall>x. x \<noteq> h \<longrightarrow>
            count_list (remoteHosts (promptRemoveHost (Some h) s)) x = count_list (remoteHosts s) x) \<and>
         storedRemoteHosts (promptRemoveHost (Some h) s) = remoteHosts (promptRemoveHost (Some h) s)"
  using assms
  by (simp add: promptRemoveHost_def updateStatusBar_def showInformationMessage_def Let_def
      count_list_filter_neq)

theorem remove_host_witness:
  "currentHost (promptRemoveHost (Some ''box:/srv/app'')
      ((demo_state (Some ''box:/srv/app'') Off)\<lparr>remoteHosts := [''a:/x'', ''box:/srv/app'', ''b:/y'']\<rparr>)) = None \<and>
   remoteHosts (promptRemoveHost (Some ''box:/srv/app'')
      ((demo_state (Some ''box:/srv/app'') Off)\<lparr>remoteHosts := [''a:/x'', ''box:/srv/app'', ''b:/y'']\<rparr>)) =
     [''a:/x'', ''b:/y''] \<and>
   currentHost (promptRemoveHost (Some ''a:/x'')
      ((demo_state (Some ''box:/srv/app'') Off)\<lparr>remoteHosts := [''a:/x'', ''box:/srv/app'', ''b:/y'']\<rparr>)) =
     Some ''box:/srv/app''"
proof -
  have h1: "''box:/srv/app'' \<noteq> []" by simp
  have h2: "''a:/x'' \<noteq> []" by simp
  show ?thesis
    using remove_host [OF h1, of "(demo_state (Some ''box:/srv/app'') Off)\<lparr>remoteHosts := [''a:/x'', ''box:/srv/app'', ''b:/y'']\<rparr>"]
      remove_host [OF h2, of "(demo_state (Some ''box:/srv/app'') Off)\<lparr>remoteHosts := [''a:/x'', ''box:/srv/app'', ''b:/y'']\<rparr>"]
    by (simp add: demo_state_simps promptRemoveHost_def showInformationMessage_def
        updateStatusBar_def Let_def)
qed

section \<open>Adding a host that is refused\<close>




section \<open>The states of consecutive cycles\<close>

text \<open>
  C9. Two cycles in a row that both succeed, started when the state shown is \<open>Init\<close>,
  show \<open>Syncing\<close>, \<open>Syncing\<close>, \<open>Synced\<close> each; with repetitions merged the states
  passed are \<open>Init\<close>, \<open>Syncing\<close>, \<open>Synced\<close>, \<open>Syncing\<close>, \<open>Synced\<close>, and \<open>Error\<close> is
  not among them. Every cycle, whatever its outcome, shows either \<open>Init\<close> alone or
  \<open>Syncing\<close> first and never \<open>Init\<close>.
\<close>

theorem two_successful_cycles:
  assumes "statusTrace s0 \<noteq> []" and "last (statusTrace s0) = Init"
    and "runSyncCommand e1 s0 = (s1, r1)" and "success r1"
    and "runSyncCommand e2 s1 = (s2, r2)" and "success r2"
  shows "statusTrace s2 = statusTrace s0 @ [Syncing, Syncing, Synced, Syncing, Syncing, Synced] \<and>
         remdups_adj (last (statusTrace s0) # drop (length (statusTrace s0)) (statusTrace s2)) =
           [Init, Syncing, Synced, Syncing, Synced] \<and>
         Error \<notin> set (drop (length (statusTrace s0)) (statusTrace s2)) \<and>
         (\<forall>e s. \<exists>t. statusTrace (fst (runSyncCommand e s)) = statusTrace s @ t \<and>
                    t \<in> {[Init], [Syncing, Error], [Syncing, Syncing, Error],
                          [Syncing, Syncing, Synced]} \<and>
                    (t = [Init] \<or> hd t = Syncing \<and> Init \<notin> set t))"
proof -
  have t1: "statusTrace s1 = statusTrace s0 @ [Syncing, Syncing, Synced]"
    using cycle_trace [of e1 s0] cycle_success_host [of e1 s0] assms(3,4) by simp
  have t2: "statusTrace s2 = statusTrace s1 @ [Syncing, Syncing, Synced]"
    using cycle_trace [of e2 s1] cycle_success_host [of e2 s1] assms(5,6) by simp
  have every: "\<exists>t. statusTrace (fst (runSyncCommand e s)) = statusTrace s @ t \<and>
                    t \<in> {[Init], [Syncing, Error], [Syncing, Syncing, Error],
                          [Syncing, Syncing, Synced]} \<and>
                    (t = [Init] \<or> hd t = Syncing \<and> Init \<notin> set t)" for e s
    unfolding cycle_trace [of e s] by simp
  show ?thesis
    using every by (simp add: t1 t2 assms(2))
qed


theorem two_successful_cycles_witness:
  "statusTrace (fst (runSyncCommand (demo_env ''/home/u/proj'' demo_ok)
                  (fst (runSyncCommand (demo_env ''/home/u/proj'' demo_ok)
                          (demo_state (Some ''box:/srv/app'') Off))))) =
     [Init, Syncing, Syncing, Synced, Syncing, Syncing, Synced]"
proof -
  let ?e = "demo_env ''/home/u/proj'' demo_ok"
  let ?s0 = "demo_state (Some ''box:/srv/app'') Off"
  let ?s1 = "fst (runSyncCommand ?e ?s0)"
  have h1: "statusTrace ?s0 \<noteq> []" and h2: "last (statusTrace ?s0) = Init"
    by (simp_all add: demo_state_simps)
  have ok: "error demo_ok = None" "stderr demo_ok = []"
    by (simp_all add: demo_ok_def)
  have c1: "runSyncCommand ?e ?s0 = (?s1, snd (runSyncCommand ?e ?s0))"
    by simp
  have c2: "runSyncCommand ?e ?s1 = (fst (runSyncCommand ?e ?s1), snd (runSyncCommand ?e ?s1))"
    by simp
  have host1: "currentHost ?s1 = Some ''box:/srv/app''"
    by (simp add: cycle_defs demo_state_simps demo_env_simps noHost_demo ok)
  have r1: "success (snd (runSyncCommand ?e ?s0))"
    by (simp add: cycle_defs demo_state_simps demo_env_simps noHost_demo ok)
  have r2: "success (snd (runSyncCommand ?e ?s1))"
    using host1 by (simp add: cycle_defs demo_env_simps noHost_demo ok)
  show ?thesis
    using two_successful_cycles [OF h1 h2 c1 r1 c2 r2]
    by (simp add: demo_state_simps)
qed

section \<open>The destination\<close>

text \<open>
  C10. In a cycle that reaches the transfer, the command executed ends with the
  workspace path, a space and the destination: the current host itself when its last
  character is \<^verbatim>\<open>/\<close>, the current host followed by one \<^verbatim>\<open>/\<close> otherwise.
\<close>

theorem destination_trailing_slash:
  assumes "currentHost s = Some h" and "\<not> noHost (Some h)" and "workspaceFolder e = Some w"
  shows "execLog (fst (runSyncCommand e s)) =
           execLog s @ [rsync_options (deletionMode s) @ w @ '' '' @
                        (if h \<noteq> [] \<and> last h = CHR ''/'' then h else h @ ''/'')]"
  using assms
  by (auto simp: cycle_defs rsync_command_def dest_path_def endsWith_slash split: option.splits)

theorem destination_trailing_slash_witness:
  "execLog (fst (runSyncCommand (demo_env ''/home/u/proj'' demo_ok)
                   (demo_state (Some ''box:/srv/app'') Off))) =
     [rsync_options Off @ ''/home/u/proj box:/srv/app/''] \<and>
   execLog (fst (runSyncCommand (demo_env ''/home/u/proj'' demo_ok)
                   (demo_state (Some ''box:/srv/'') Off))) =
     [rsync_options Off @ ''/home/u/proj box:/srv/'']"
proof -
  have n: "\<not> noHost (Some ''box:/srv/'')"
    by (simp add: noHost_def trim_def js_whitespace_def)
  have h1: "currentHost (demo_state (Some h) Off) = Some h" for h
    by (simp add: demo_state_simps)
  have h3: "workspaceFolder (demo_env ''/home/u/proj'' demo_ok) = Some ''/home/u/proj''"
    by (simp add: demo_env_simps)
  show ?thesis
    using destination_trailing_slash [OF h1 noHost_demo h3]
      destination_trailing_slash [OF h1 n h3]
    by (simp add: demo_state_simps)
qed

end
